theory Spec2Isabelle
  imports Complex_Main
begin

section \<open>Numbers\<close>

text \<open>
  The component computes with JavaScript numbers. Props, layout heights and gesture
  deltas are modelled as finite numbers of type \<open>real\<close> (rounding and the sign of zero
  are not modelled). The value held by an \<open>Animated.Value\<close> is a \<open>jsnum\<close>: the drag
  handler writes \<open>1 - dy / convertedHeight\<close> into one, and that quotient is not finite
  when \<open>convertedHeight\<close> is zero.
\<close>

datatype jsnum = Fin real | PosInf | NegInf | NaN

text \<open>JavaScript \<open>x / y\<close> on finite operands.\<close>

definition js_div :: "real \<Rightarrow> real \<Rightarrow> jsnum" where
  "js_div x y =
     (if y = 0 then (if 0 < x then PosInf else if x < 0 then NegInf else NaN)
      else Fin (x / y))"

text \<open>JavaScript \<open>a - b\<close>.\<close>

fun js_sub :: "jsnum \<Rightarrow> jsnum \<Rightarrow> jsnum" where
  "js_sub (Fin a) (Fin b) = Fin (a - b)"
| "js_sub (Fin a) PosInf = NegInf"
| "js_sub (Fin a) NegInf = PosInf"
| "js_sub PosInf (Fin b) = PosInf"
| "js_sub PosInf NegInf = PosInf"
| "js_sub NegInf (Fin b) = NegInf"
| "js_sub NegInf PosInf = NegInf"
| "js_sub a b = NaN"

section \<open>Height resolution\<close>

text \<open>
  The \<open>height\<close> prop: a pixel number, a percentage string such as \<open>'50%'\<close> (here the
  number before the percent sign), or the automatic height.
\<close>

datatype height_spec = Pixels real | Percent real | Auto

text \<open>Clamping \<open>x\<close> to the interval [\<open>lo\<close>, \<open>hi\<close>].\<close>

definition clamp :: "real \<Rightarrow> real \<Rightarrow> real \<Rightarrow> real" where
  "clamp lo hi x = max lo (min hi x)"

text \<open>
  Modelled from the spec: \<open>utils/convertHeight\<close> is imported by \<open>index.tsx\<close> and is not
  among the sources. The specification's height resolver reads: Pixels(n): clamp n to
  [0, containerHeight]; Percent(p): containerHeight * p/100, clamped to
  [0, containerHeight]; Auto: containerHeight minus a fixed chrome allowance when the
  handle bar is visible, else containerHeight unchanged. The allowance is a constant
  whose value the specification does not give; it is the parameter \<open>allowance\<close>.
\<close>

fun convertHeight :: "real \<Rightarrow> height_spec \<Rightarrow> real \<Rightarrow> bool \<Rightarrow> real" where
  "convertHeight allowance (Pixels n) containerHeight handleBarHidden =
     clamp 0 containerHeight n"
| "convertHeight allowance (Percent p) containerHeight handleBarHidden =
     clamp 0 containerHeight (containerHeight * p / 100)"
| "convertHeight allowance Auto containerHeight handleBarHidden =
     (if handleBarHidden then containerHeight else containerHeight - allowance)"

text \<open>The interval [0, containerHeight] of the specification.\<close>

definition in_container :: "real \<Rightarrow> real \<Rightarrow> bool" where
  "in_container containerHeight h = (0 \<le> h \<and> h \<le> containerHeight)"

section \<open>Props and animated values\<close>

datatype ANIMATIONS = SLIDE | SPRING | FADE

text \<open>The \<open>containerHeight\<close> prop: a number, a string such as \<open>'80%'\<close>, or omitted.\<close>

datatype container_height = HeightNumber real | HeightString string | HeightUndefined

text \<open>The props read by the lifecycle, gesture and layout code of \<open>index.tsx\<close>.\<close>

record BottomSheetProps =
  animationType :: ANIMATIONS
  height :: height_spec
  hideHandleBar :: bool
  disableBodyPanning :: bool
  disableHandleBarPanning :: bool
  closeOnDragDown :: bool
  passedContainerHeight :: container_height
  hideBackdrop :: bool

text \<open>
  The two imports of \<open>index.tsx\<close> that its numbers flow through and that are not among
  the sources: the chrome allowance of \<open>convertHeight\<close> and the function
  \<open>utils/normalizeHeight\<close>. They are parameters of the model.
\<close>

record utils =
  chromeAllowance :: real
  normalizeHeight :: "real \<Rightarrow> real"

datatype easing_fn = DefaultEasing | SlideEasingFn | SpringEasingFn

text \<open>The configuration object passed to \<open>Animated.timing\<close>.\<close>

record timing =
  toValue :: real
  duration :: real
  easing :: easing_fn

text \<open>
  An \<open>Animated.Value\<close>: \<open>val\<close> is the value last written by \<open>setValue\<close> or reached by
  a timing animation that ran to its end, \<open>animation\<close> the timing animation in flight.
  The frames between the start and the end of an animation are not modelled.
\<close>

record animated_value =
  val :: jsnum
  animation :: "timing option"

definition useAnimatedValue :: "real \<Rightarrow> animated_value" where
  "useAnimatedValue initial = \<lparr>val = Fin initial, animation = None\<rparr>"

text \<open>\<open>value.setValue(v)\<close>: stops the animation in flight and writes \<open>v\<close>.\<close>

definition setValue :: "jsnum \<Rightarrow> animated_value \<Rightarrow> animated_value" where
  "setValue v a = \<lparr>val = v, animation = None\<rparr>"

text \<open>\<open>Animated.timing(value, config).start()\<close>: the new animation replaces the one in flight.\<close>

definition start :: "timing \<Rightarrow> animated_value \<Rightarrow> animated_value" where
  "start t a = a\<lparr>animation := Some t\<rparr>"

text \<open>The animation in flight runs to its end.\<close>

definition finish :: "animated_value \<Rightarrow> animated_value" where
  "finish a =
     (case animation a of
        None \<Rightarrow> a
      | Some t \<Rightarrow> \<lparr>val = Fin (toValue t), animation = None\<rparr>)"

subsection \<open>Animators\<close>

definition slideEasingFn :: "real \<Rightarrow> real" where
  "slideEasingFn v = (if v = 1 then 1 else 1 - 2 powr (- 10 * v))"

definition springEasingFn :: "real \<Rightarrow> real" where
  "springEasingFn v =
     (let c4 = (2 * pi) / 2.5
      in if v = 0 then 0
         else if v = 1 then 1
         else 2 powr (- 9 * v) * sin ((v * 4.5 - 0.75) * c4) + 1)"

definition animateContainerHeight :: "real \<Rightarrow> timing" where
  "animateContainerHeight v = \<lparr>toValue = v, duration = 50, easing = DefaultEasing\<rparr>"

definition animateBackdropMaskOpacity :: "real \<Rightarrow> timing" where
  "animateBackdropMaskOpacity v = \<lparr>toValue = v, duration = 200, easing = DefaultEasing\<rparr>"

text \<open>\<open>duration || 500\<close>: an omitted duration and the duration 0 both give 500.\<close>

definition animateHeight :: "ANIMATIONS \<Rightarrow> real \<Rightarrow> real option \<Rightarrow> timing" where
  "animateHeight anim v dur =
     (let DEFAULT_DURATION = (case dur of None \<Rightarrow> 500 | Some d \<Rightarrow> if d = 0 then 500 else d)
      in \<lparr>toValue = v,
          duration = (if anim = SPRING then DEFAULT_DURATION + 100 else DEFAULT_DURATION),
          easing = (if anim = SLIDE then SlideEasingFn else SpringEasingFn)\<rparr>)"

definition animateTranslateY :: "ANIMATIONS \<Rightarrow> real \<Rightarrow> timing" where
  "animateTranslateY anim v =
     \<lparr>toValue = v, duration = 500,
      easing = (if anim = SLIDE then SlideEasingFn else SpringEasingFn)\<rparr>"

section \<open>The state of a mounted sheet\<close>

text \<open>
  The only call of \<open>start\<close> that passes a callback is the backdrop fade of
  \<open>closeBottomSheet\<close>. The callback closes over the \<open>animationType\<close> of the render that
  created it.
\<close>

datatype callback = CloseCallback ANIMATIONS

text \<open>
  \<open>containerHeight\<close> and \<open>sheetOpen\<close> are the two \<open>useState\<close> cells: a \<open>set...\<close> call is
  the update of the field, and \<open>render\<close> below is the render that follows it.
  \<open>backdropOnEnd\<close> is the callback of the backdrop animation in flight.
  \<open>convertedHeight\<close> is the value of the \<open>useMemo\<close>, and the two \<open>...Deps\<close> fields are
  the dependencies seen at the last run of the memo and of the layout effect.
\<close>

record sheet =
  props :: BottomSheetProps
  SCREEN_HEIGHT :: real
  containerHeight :: real
  sheetOpen :: bool
  animatedContainerHeight :: animated_value
  animatedBackdropMaskOpacity :: animated_value
  backdropOnEnd :: "callback option"
  animatedHeight :: animated_value
  animatedTranslateY :: animated_value
  cachedContentWrapperNativeTag :: "nat option"
  convertedHeight :: real
  convertedHeightDeps :: "(real \<times> height_spec \<times> bool \<times> ANIMATIONS) option"
  layoutEffectDeps :: "(container_height \<times> real \<times> bool \<times> real \<times> bool) option"

subsection \<open>The backdrop channel and its completion callback\<close>

text \<open>The callback passed to \<open>start\<close> in \<open>closeBottomSheet\<close>; \<open>finished\<close> is \<open>anim.finished\<close>.\<close>

definition runCallback :: "callback \<Rightarrow> bool \<Rightarrow> sheet \<Rightarrow> sheet" where
  "runCallback cb finished s =
     (case cb of CloseCallback anim \<Rightarrow>
        if finished then
          (if anim = FADE then
             s\<lparr>animatedContainerHeight :=
                  start (animateContainerHeight 0) (animatedContainerHeight s),
               animatedHeight := setValue (Fin 0) (animatedHeight s)\<rparr>
           else
             s\<lparr>animatedHeight := start (animateHeight anim 0 None) (animatedHeight s),
               animatedContainerHeight :=
                  start (animateContainerHeight 0) (animatedContainerHeight s)\<rparr>)
        else s)"

text \<open>
  The backdrop animation in flight ends: its callback, if it has one, is called once,
  with \<open>finished\<close> false when the animation was stopped by a later \<open>start\<close> or
  \<open>setValue\<close> on the same value.
\<close>

definition endBackdrop :: "bool \<Rightarrow> sheet \<Rightarrow> sheet" where
  "endBackdrop finished s =
     (case backdropOnEnd s of
        None \<Rightarrow> s
      | Some cb \<Rightarrow> runCallback cb finished (s\<lparr>backdropOnEnd := None\<rparr>))"

definition startBackdrop :: "real \<Rightarrow> callback option \<Rightarrow> sheet \<Rightarrow> sheet" where
  "startBackdrop v cb s =
     (let s1 = endBackdrop False s
      in s1\<lparr>animatedBackdropMaskOpacity :=
               start (animateBackdropMaskOpacity v) (animatedBackdropMaskOpacity s1),
             backdropOnEnd := cb\<rparr>)"

definition setBackdrop :: "jsnum \<Rightarrow> sheet \<Rightarrow> sheet" where
  "setBackdrop v s =
     (let s1 = endBackdrop False s
      in s1\<lparr>animatedBackdropMaskOpacity := setValue v (animatedBackdropMaskOpacity s1)\<rparr>)"

definition finishBackdrop :: "sheet \<Rightarrow> sheet" where
  "finishBackdrop s =
     (case animation (animatedBackdropMaskOpacity s) of
        None \<Rightarrow> s
      | Some t \<Rightarrow>
          endBackdrop True
            (s\<lparr>animatedBackdropMaskOpacity := finish (animatedBackdropMaskOpacity s)\<rparr>))"

section \<open>Lifecycle\<close>

definition openBottomSheet :: "sheet \<Rightarrow> sheet" where
  "openBottomSheet s =
     (let p = props s;
          s1 = s\<lparr>animatedContainerHeight :=
                   start (animateContainerHeight
                            (if hideBackdrop p then convertedHeight s else containerHeight s))
                         (animatedContainerHeight s)\<rparr>;
          s2 = (if animationType p = FADE then
                  startBackdrop 1 None
                    (s1\<lparr>animatedHeight :=
                          setValue (Fin (convertedHeight s)) (animatedHeight s1)\<rparr>)
                else
                  (let s3 = startBackdrop 1 None s1
                   in s3\<lparr>animatedHeight :=
                           start (animateHeight (animationType p) (convertedHeight s) None)
                                 (animatedHeight s3)\<rparr>))
      in s2\<lparr>sheetOpen := True\<rparr>)"

text \<open>
  \<open>removeKeyboardListeners()\<close> and \<open>Keyboard.dismiss()\<close> act on the keyboard hook, which
  is not among the sources and holds no part of the state modelled here.
\<close>

definition closeBottomSheet :: "sheet \<Rightarrow> sheet" where
  "closeBottomSheet s =
     (let s1 = startBackdrop 0 (Some (CloseCallback (animationType (props s)))) s
      in s1\<lparr>sheetOpen := False\<rparr>)"

definition containerViewLayoutHandler :: "real \<Rightarrow> sheet \<Rightarrow> sheet" where
  "containerViewLayoutHandler newHeight s =
     (let s1 = s\<lparr>containerHeight := newHeight\<rparr>
      in if sheetOpen s then
           s1\<lparr>animatedContainerHeight :=
                 setValue (Fin newHeight) (animatedContainerHeight s1)\<rparr>
         else s1)"

text \<open>The body of the \<open>useLayoutEffect\<close>.\<close>

definition layoutEffect :: "utils \<Rightarrow> sheet \<Rightarrow> sheet" where
  "layoutEffect u s =
     (if hideBackdrop (props s) then s
      else
        (case passedContainerHeight (props s) of
           HeightNumber n \<Rightarrow>
             (let s1 = s\<lparr>containerHeight := normalizeHeight u n\<rparr>
              in if sheetOpen s then
                   s1\<lparr>animatedContainerHeight :=
                         setValue (Fin n) (animatedContainerHeight s1)\<rparr>
                 else s1)
         | HeightUndefined \<Rightarrow>
             (if containerHeight s \<noteq> SCREEN_HEIGHT s then
                (let s1 = s\<lparr>containerHeight := SCREEN_HEIGHT s\<rparr>
                 in if sheetOpen s then
                      s1\<lparr>animatedContainerHeight :=
                            setValue (Fin (SCREEN_HEIGHT s)) (animatedContainerHeight s1)\<rparr>
                    else s1)
              else s)
         | HeightString str \<Rightarrow> s))"

text \<open>The body of the \<open>useMemo\<close> that computes \<open>convertedHeight\<close>.\<close>

definition computeConvertedHeight :: "utils \<Rightarrow> sheet \<Rightarrow> sheet" where
  "computeConvertedHeight u s =
     (let p = props s;
          newHeight = convertHeight (chromeAllowance u) (height p) (containerHeight s)
                        (hideHandleBar p);
          s1 = (if sheetOpen s then
                  (if animationType p = FADE then
                     s\<lparr>animatedHeight := setValue (Fin newHeight) (animatedHeight s)\<rparr>
                   else
                     s\<lparr>animatedHeight :=
                         start (animateHeight (animationType p) newHeight None)
                               (animatedHeight s)\<rparr>)
                else s)
      in s1\<lparr>convertedHeight := newHeight\<rparr>)"

section \<open>Gestures\<close>

datatype view = handlebar | contentwrapper

text \<open>
  \<open>getPanHandlersFor\<close> returns \<open>null\<close> (here \<open>False\<close>) when panning is disabled for the
  view, and the handlers of a new \<open>PanResponder\<close> otherwise.
\<close>

definition getPanHandlersFor :: "BottomSheetProps \<Rightarrow> view \<Rightarrow> bool" where
  "getPanHandlersFor p v =
     (if v = handlebar \<and> disableHandleBarPanning p then False
      else if v = contentwrapper \<and> disableBodyPanning p then False
      else True)"

text \<open>
  A \<open>_nativeTag\<close> is a number or \<open>undefined\<close> (\<open>None\<close>); \<open>evt?.target?._nativeTag\<close> is
  \<open>undefined\<close> when the event, its target or the target's tag is missing. The
  comparison is the loose equality \<open>==\<close>, under which \<open>undefined\<close> equals \<open>undefined\<close>
  and no number.
\<close>

definition onMoveShouldSetPanResponder :: "view \<Rightarrow> nat option \<Rightarrow> sheet \<Rightarrow> bool" where
  "onMoveShouldSetPanResponder v target s =
     (if v = handlebar then True else cachedContentWrapperNativeTag s = target)"

definition onPanResponderMove :: "real \<Rightarrow> sheet \<Rightarrow> sheet" where
  "onPanResponderMove dy s =
     (if dy > 0 then
        (let relativeOpacity = js_sub (Fin 1) (js_div dy (convertedHeight s));
             s1 = setBackdrop relativeOpacity s
         in if animationType (props s) \<noteq> FADE then
              s1\<lparr>animatedHeight :=
                    setValue (Fin (convertedHeight s - dy)) (animatedHeight s1)\<rparr>
            else s1)
      else s)"

definition onPanResponderRelease :: "real \<Rightarrow> sheet \<Rightarrow> sheet" where
  "onPanResponderRelease dy s =
     (if dy \<ge> convertedHeight s / 3 \<and> closeOnDragDown (props s) then closeBottomSheet s
      else
        (let s1 = setBackdrop (Fin 1) s
         in if animationType (props s) \<noteq> FADE then
              s1\<lparr>animatedHeight :=
                    start (animateHeight (animationType (props s)) (convertedHeight s) None)
                          (animatedHeight s1)\<rparr>
            else s1))"

text \<open>
  \<open>!cachedContentWrapperNativeTag.current\<close> holds for \<open>undefined\<close> and for the number 0.
\<close>

definition extractNativeTag :: "nat option \<Rightarrow> sheet \<Rightarrow> sheet" where
  "extractNativeTag tag s =
     (if cachedContentWrapperNativeTag s = None \<or> cachedContentWrapperNativeTag s = Some 0
      then s\<lparr>cachedContentWrapperNativeTag := tag\<rparr>
      else s)"

text \<open>
  The handlers of a view are attached when the view is rendered with them: the handle
  bar is not rendered under \<open>hideHandleBar\<close>.
\<close>

definition panHandlersAttached :: "BottomSheetProps \<Rightarrow> view \<Rightarrow> bool" where
  "panHandlersAttached p v =
     (if v = handlebar \<and> hideHandleBar p then False else getPanHandlersFor p v)"

text \<open>
  A move event with downward delta \<open>dy\<close> on an element with tag \<open>target\<close>, offered to the
  responder of view \<open>v\<close>: the responder asks \<open>onMoveShouldSetPanResponder\<close> and, when the
  answer is yes, the gesture is the sheet's and \<open>onPanResponderMove\<close> runs.
\<close>

definition moveEvent :: "view \<Rightarrow> nat option \<Rightarrow> real \<Rightarrow> sheet \<Rightarrow> sheet" where
  "moveEvent v target dy s =
     (if panHandlersAttached (props s) v \<and> onMoveShouldSetPanResponder v target s
      then onPanResponderMove dy s
      else s)"

text \<open>The release of a gesture that the responder of view \<open>v\<close> holds.\<close>

definition releaseEvent :: "view \<Rightarrow> real \<Rightarrow> sheet \<Rightarrow> sheet" where
  "releaseEvent v dy s =
     (if panHandlersAttached (props s) v then onPanResponderRelease dy s else s)"

section \<open>Rendering\<close>

text \<open>\<open>useMemo\<close>: the body runs when a dependency differs from the last run.\<close>

definition useMemo_convertedHeight :: "utils \<Rightarrow> sheet \<Rightarrow> sheet" where
  "useMemo_convertedHeight u s =
     (let deps = (containerHeight s, height (props s), sheetOpen s, animationType (props s))
      in if convertedHeightDeps s = Some deps then s
         else (computeConvertedHeight u s)\<lparr>convertedHeightDeps := Some deps\<rparr>)"

text \<open>\<open>useLayoutEffect\<close>: the body runs when a dependency differs from the last run.\<close>

definition useLayoutEffect :: "utils \<Rightarrow> sheet \<Rightarrow> sheet" where
  "useLayoutEffect u s =
     (let deps = (passedContainerHeight (props s), SCREEN_HEIGHT s, sheetOpen s,
                  containerHeight s, hideBackdrop (props s))
      in if layoutEffectDeps s = Some deps then s
         else (layoutEffect u s)\<lparr>layoutEffectDeps := Some deps\<rparr>)"

definition renderOnce :: "utils \<Rightarrow> sheet \<Rightarrow> sheet" where
  "renderOnce u s = useLayoutEffect u (useMemo_convertedHeight u s)"

text \<open>
  A render, and the render that follows when the layout effect has changed the
  \<open>containerHeight\<close> state. In that second render the effect writes the same value
  again, so no third render follows (lemma \<open>render_stable\<close> below).
\<close>

definition render :: "utils \<Rightarrow> sheet \<Rightarrow> sheet" where
  "render u s =
     (let s1 = renderOnce u s
      in if containerHeight s1 = containerHeight s then s1 else renderOnce u s1)"

text \<open>The first render: \<open>useState(SCREEN_HEIGHT)\<close>, \<open>useState(false)\<close>, four values at 0.\<close>

definition mount :: "utils \<Rightarrow> BottomSheetProps \<Rightarrow> real \<Rightarrow> sheet" where
  "mount u p screenHeight =
     render u
       \<lparr>props = p, SCREEN_HEIGHT = screenHeight, containerHeight = screenHeight,
        sheetOpen = False,
        animatedContainerHeight = useAnimatedValue 0,
        animatedBackdropMaskOpacity = useAnimatedValue 0,
        backdropOnEnd = None,
        animatedHeight = useAnimatedValue 0,
        animatedTranslateY = useAnimatedValue 0,
        cachedContentWrapperNativeTag = None,
        convertedHeight = 0,
        convertedHeightDeps = None,
        layoutEffectDeps = None\<rparr>"

section \<open>Events\<close>

text \<open>The calls of the ref instance (\<open>BottomSheetMethods\<close>).\<close>

datatype BottomSheetMethods = Open | Close

fun callMethod :: "BottomSheetMethods \<Rightarrow> sheet \<Rightarrow> sheet" where
  "callMethod Open s = openBottomSheet s"
| "callMethod Close s = closeBottomSheet s"

text \<open>
  Calls made one after the other by the host, with no render in between and so
  through the closures of one render. Neither call reads a state cell it writes, so
  the calls compose on the state.
\<close>

fun callMethods :: "BottomSheetMethods list \<Rightarrow> sheet \<Rightarrow> sheet" where
  "callMethods [] s = s"
| "callMethods (m # ms) s = callMethods ms (callMethod m s)"

datatype channel = ContainerHeight | BackdropMaskOpacity | Height | TranslateY

text \<open>
  What can happen to a mounted sheet: calls of the ref instance by the host, a move or a release of
  a gesture, the layout of the content container, the layout of the measuring view
  (rendered only when the \<open>containerHeight\<close> prop is a string), new props, a new window
  height, and an animation that runs to its end.
\<close>

datatype event =
    Call "BottomSheetMethods list"
  | Move view "nat option" real
  | Release view real
  | ContentLayout "nat option"
  | ContainerViewLayout real
  | NewProps BottomSheetProps
  | NewWindowHeight real
  | AnimationEnd channel

fun is_HeightString :: "container_height \<Rightarrow> bool" where
  "is_HeightString (HeightString str) = True"
| "is_HeightString other = False"

fun handle :: "event \<Rightarrow> sheet \<Rightarrow> sheet" where
  "handle (Call ms) s = callMethods ms s"
| "handle (Move v target dy) s = moveEvent v target dy s"
| "handle (Release v dy) s = releaseEvent v dy s"
| "handle (ContentLayout tag) s = extractNativeTag tag s"
| "handle (ContainerViewLayout h) s =
     (if is_HeightString (passedContainerHeight (props s))
      then containerViewLayoutHandler h s else s)"
| "handle (NewProps p) s = s\<lparr>props := p\<rparr>"
| "handle (NewWindowHeight h) s = s\<lparr>SCREEN_HEIGHT := h\<rparr>"
| "handle (AnimationEnd ContainerHeight) s =
     s\<lparr>animatedContainerHeight := finish (animatedContainerHeight s)\<rparr>"
| "handle (AnimationEnd BackdropMaskOpacity) s = finishBackdrop s"
| "handle (AnimationEnd Height) s = s\<lparr>animatedHeight := finish (animatedHeight s)\<rparr>"
| "handle (AnimationEnd TranslateY) s =
     s\<lparr>animatedTranslateY := finish (animatedTranslateY s)\<rparr>"

text \<open>An event is handled and the component renders.\<close>

definition step :: "utils \<Rightarrow> event \<Rightarrow> sheet \<Rightarrow> sheet" where
  "step u ev s = render u (handle ev s)"

fun run :: "utils \<Rightarrow> event list \<Rightarrow> sheet \<Rightarrow> sheet" where
  "run u [] s = s"
| "run u (ev # evs) s = run u evs (step u ev s)"

text \<open>
  Events that are neither a call of the host nor a gesture nor the end of the backdrop
  animation: layouts, new props, a new window height, and the end of an animation on
  one of the other three values.
\<close>

fun isPassive :: "event \<Rightarrow> bool" where
  "isPassive (Call ms) = False"
| "isPassive (Move v target dy) = False"
| "isPassive (Release v dy) = False"
| "isPassive (AnimationEnd BackdropMaskOpacity) = False"
| "isPassive ev = True"

text \<open>
  Events under which the backdrop stays hidden and the \<open>containerHeight\<close> prop stays a
  number or omitted: new props must say so, every other event is free.
\<close>

fun keepsBackdropHidden :: "event \<Rightarrow> bool" where
  "keepsBackdropHidden (NewProps p) =
     (hideBackdrop p \<and> \<not> is_HeightString (passedContainerHeight p))"
| "keepsBackdropHidden ev = True"

section \<open>A sample sheet\<close>

text \<open>
  A concrete configuration on which the theorems below are exercised: the default
  props with a height of 50 percent, on a window 800 high.
\<close>

definition sampleUtils :: utils where
  "sampleUtils = \<lparr>chromeAllowance = 25, normalizeHeight = (\<lambda>h. max 0 h)\<rparr>"

definition sampleProps :: BottomSheetProps where
  "sampleProps =
     \<lparr>animationType = SLIDE, height = Percent 50, hideHandleBar = False,
      disableBodyPanning = False, disableHandleBarPanning = False,
      closeOnDragDown = True, passedContainerHeight = HeightUndefined,
      hideBackdrop = False\<rparr>"

text \<open>The sample sheet, mounted, laid out with native tag \<open>tag\<close>, and opened.\<close>

definition sampleSheet :: "BottomSheetProps \<Rightarrow> nat option \<Rightarrow> sheet" where
  "sampleSheet p tag =
     run sampleUtils [ContentLayout tag, Call [Open]] (mount sampleUtils p 800)"

section \<open>Normal forms of the handlers\<close>

text \<open>
  A \<open>start\<close> or \<open>setValue\<close> on the backdrop calls the callback of the animation it
  stops with \<open>finished\<close> false, which does nothing: only the callback is dropped.
\<close>

lemma endBackdrop_False: "endBackdrop False s = s\<lparr>backdropOnEnd := None\<rparr>"
  by (cases "backdropOnEnd s") (auto simp: endBackdrop_def runCallback_def split: callback.splits)

lemma startBackdrop_eq:
  "startBackdrop v cb s =
     s\<lparr>animatedBackdropMaskOpacity :=
          start (animateBackdropMaskOpacity v) (animatedBackdropMaskOpacity s),
        backdropOnEnd := cb\<rparr>"
  by (simp add: startBackdrop_def endBackdrop_False)

lemma setBackdrop_eq:
  "setBackdrop v s =
     s\<lparr>animatedBackdropMaskOpacity := setValue v (animatedBackdropMaskOpacity s),
        backdropOnEnd := None\<rparr>"
  by (simp add: setBackdrop_def endBackdrop_False)

lemma closeBottomSheet_eq:
  "closeBottomSheet s =
     s\<lparr>animatedBackdropMaskOpacity :=
          start (animateBackdropMaskOpacity 0) (animatedBackdropMaskOpacity s),
        backdropOnEnd := Some (CloseCallback (animationType (props s))),
        sheetOpen := False\<rparr>"
  by (simp add: closeBottomSheet_def startBackdrop_eq)

lemma openBottomSheet_eq:
  "openBottomSheet s =
     s\<lparr>animatedContainerHeight :=
          start (animateContainerHeight
                   (if hideBackdrop (props s) then convertedHeight s else containerHeight s))
                (animatedContainerHeight s),
        animatedHeight :=
          (if animationType (props s) = FADE
           then setValue (Fin (convertedHeight s)) (animatedHeight s)
           else start (animateHeight (animationType (props s)) (convertedHeight s) None)
                  (animatedHeight s)),
        animatedBackdropMaskOpacity :=
          start (animateBackdropMaskOpacity 1) (animatedBackdropMaskOpacity s),
        backdropOnEnd := None,
        sheetOpen := True\<rparr>"
  by (simp add: openBottomSheet_def startBackdrop_eq Let_def)

lemma onPanResponderMove_eq:
  "onPanResponderMove dy s =
     (if 0 < dy then
        s\<lparr>animatedBackdropMaskOpacity :=
             setValue (js_sub (Fin 1) (js_div dy (convertedHeight s)))
               (animatedBackdropMaskOpacity s),
           backdropOnEnd := None,
           animatedHeight :=
             (if animationType (props s) = FADE then animatedHeight s
              else setValue (Fin (convertedHeight s - dy)) (animatedHeight s))\<rparr>
      else s)"
  by (simp add: onPanResponderMove_def setBackdrop_eq Let_def)

lemma onPanResponderRelease_eq:
  "onPanResponderRelease dy s =
     (if convertedHeight s / 3 \<le> dy \<and> closeOnDragDown (props s) then closeBottomSheet s
      else
        s\<lparr>animatedBackdropMaskOpacity := setValue (Fin 1) (animatedBackdropMaskOpacity s),
           backdropOnEnd := None,
           animatedHeight :=
             (if animationType (props s) = FADE then animatedHeight s
              else start (animateHeight (animationType (props s)) (convertedHeight s) None)
                     (animatedHeight s))\<rparr>)"
  by (simp add: onPanResponderRelease_def setBackdrop_eq Let_def)

section \<open>What a render leaves unchanged\<close>

lemma useMemo_frame:
  "props (useMemo_convertedHeight u s) = props s"
  "sheetOpen (useMemo_convertedHeight u s) = sheetOpen s"
  "containerHeight (useMemo_convertedHeight u s) = containerHeight s"
  "SCREEN_HEIGHT (useMemo_convertedHeight u s) = SCREEN_HEIGHT s"
  "animatedContainerHeight (useMemo_convertedHeight u s) = animatedContainerHeight s"
  "animatedBackdropMaskOpacity (useMemo_convertedHeight u s) = animatedBackdropMaskOpacity s"
  "animatedTranslateY (useMemo_convertedHeight u s) = animatedTranslateY s"
  "backdropOnEnd (useMemo_convertedHeight u s) = backdropOnEnd s"
  "cachedContentWrapperNativeTag (useMemo_convertedHeight u s) = cachedContentWrapperNativeTag s"
  by (simp_all add: useMemo_convertedHeight_def computeConvertedHeight_def Let_def)

lemma useMemo_closed:
  "\<not> sheetOpen s \<Longrightarrow> animatedHeight (useMemo_convertedHeight u s) = animatedHeight s"
  by (simp add: useMemo_convertedHeight_def computeConvertedHeight_def Let_def)

lemma useMemo_deps:
  "convertedHeightDeps (useMemo_convertedHeight u s)
     = Some (containerHeight s, height (props s), sheetOpen s, animationType (props s))"
  "layoutEffectDeps (useMemo_convertedHeight u s) = layoutEffectDeps s"
  by (simp_all add: useMemo_convertedHeight_def computeConvertedHeight_def Let_def)

lemma useLayoutEffect_frame:
  "props (useLayoutEffect u s) = props s"
  "sheetOpen (useLayoutEffect u s) = sheetOpen s"
  "SCREEN_HEIGHT (useLayoutEffect u s) = SCREEN_HEIGHT s"
  "animatedHeight (useLayoutEffect u s) = animatedHeight s"
  "animatedBackdropMaskOpacity (useLayoutEffect u s) = animatedBackdropMaskOpacity s"
  "animatedTranslateY (useLayoutEffect u s) = animatedTranslateY s"
  "backdropOnEnd (useLayoutEffect u s) = backdropOnEnd s"
  "cachedContentWrapperNativeTag (useLayoutEffect u s) = cachedContentWrapperNativeTag s"
  "convertedHeight (useLayoutEffect u s) = convertedHeight s"
  by (simp_all add: useLayoutEffect_def layoutEffect_def Let_def split: container_height.splits)

lemma useLayoutEffect_closed:
  "\<not> sheetOpen s \<Longrightarrow>
     animatedContainerHeight (useLayoutEffect u s) = animatedContainerHeight s"
  by (simp add: useLayoutEffect_def layoutEffect_def Let_def split: container_height.splits)

lemma useLayoutEffect_hideBackdrop:
  "hideBackdrop (props s) \<Longrightarrow> containerHeight (useLayoutEffect u s) = containerHeight s"
  "hideBackdrop (props s) \<Longrightarrow>
     animatedContainerHeight (useLayoutEffect u s) = animatedContainerHeight s"
  by (simp_all add: useLayoutEffect_def layoutEffect_def Let_def)

lemma useLayoutEffect_deps:
  "layoutEffectDeps (useLayoutEffect u s)
     = Some (passedContainerHeight (props s), SCREEN_HEIGHT s, sheetOpen s, containerHeight s,
             hideBackdrop (props s))"
  "convertedHeightDeps (useLayoutEffect u s) = convertedHeightDeps s"
  by (simp_all add: useLayoutEffect_def layoutEffect_def Let_def split: container_height.splits)

lemma useLayoutEffect_containerHeight:
  "containerHeight (useLayoutEffect u s) =
     (if layoutEffectDeps s
           = Some (passedContainerHeight (props s), SCREEN_HEIGHT s, sheetOpen s,
                   containerHeight s, hideBackdrop (props s))
         \<or> hideBackdrop (props s)
      then containerHeight s
      else (case passedContainerHeight (props s) of
              HeightNumber n \<Rightarrow> normalizeHeight u n
            | HeightString str \<Rightarrow> containerHeight s
            | HeightUndefined \<Rightarrow> SCREEN_HEIGHT s))"
  by (simp add: useLayoutEffect_def layoutEffect_def Let_def split: container_height.splits)

lemma renderOnce_frame:
  "props (renderOnce u s) = props s"
  "sheetOpen (renderOnce u s) = sheetOpen s"
  "SCREEN_HEIGHT (renderOnce u s) = SCREEN_HEIGHT s"
  "animatedBackdropMaskOpacity (renderOnce u s) = animatedBackdropMaskOpacity s"
  "animatedTranslateY (renderOnce u s) = animatedTranslateY s"
  "backdropOnEnd (renderOnce u s) = backdropOnEnd s"
  "cachedContentWrapperNativeTag (renderOnce u s) = cachedContentWrapperNativeTag s"
  by (simp_all add: renderOnce_def useLayoutEffect_frame useMemo_frame)

lemma renderOnce_closed:
  "\<not> sheetOpen s \<Longrightarrow> animatedHeight (renderOnce u s) = animatedHeight s"
  "\<not> sheetOpen s \<Longrightarrow> animatedContainerHeight (renderOnce u s) = animatedContainerHeight s"
  by (simp_all add: renderOnce_def useLayoutEffect_frame useMemo_frame useMemo_closed
      useLayoutEffect_closed)

lemma renderOnce_hideBackdrop:
  "hideBackdrop (props s) \<Longrightarrow> containerHeight (renderOnce u s) = containerHeight s"
  "hideBackdrop (props s) \<Longrightarrow>
     animatedContainerHeight (renderOnce u s) = animatedContainerHeight s"
  by (simp_all add: renderOnce_def useLayoutEffect_hideBackdrop useMemo_frame)

lemma renderOnce_deps:
  "convertedHeightDeps (renderOnce u s)
     = Some (containerHeight s, height (props s), sheetOpen s, animationType (props s))"
  "layoutEffectDeps (renderOnce u s)
     = Some (passedContainerHeight (props s), SCREEN_HEIGHT s, sheetOpen s, containerHeight s,
             hideBackdrop (props s))"
  by (simp_all add: renderOnce_def useLayoutEffect_deps useMemo_deps useMemo_frame)

lemma renderOnce_containerHeight:
  "containerHeight (renderOnce u s) =
     (if layoutEffectDeps s
           = Some (passedContainerHeight (props s), SCREEN_HEIGHT s, sheetOpen s,
                   containerHeight s, hideBackdrop (props s))
         \<or> hideBackdrop (props s)
      then containerHeight s
      else (case passedContainerHeight (props s) of
              HeightNumber n \<Rightarrow> normalizeHeight u n
            | HeightString str \<Rightarrow> containerHeight s
            | HeightUndefined \<Rightarrow> SCREEN_HEIGHT s))"
  by (simp add: renderOnce_def useLayoutEffect_containerHeight useMemo_deps useMemo_frame
      split: container_height.splits)

lemma render_frame:
  "props (render u s) = props s"
  "sheetOpen (render u s) = sheetOpen s"
  "SCREEN_HEIGHT (render u s) = SCREEN_HEIGHT s"
  "animatedBackdropMaskOpacity (render u s) = animatedBackdropMaskOpacity s"
  "animatedTranslateY (render u s) = animatedTranslateY s"
  "backdropOnEnd (render u s) = backdropOnEnd s"
  "cachedContentWrapperNativeTag (render u s) = cachedContentWrapperNativeTag s"
  by (simp_all add: render_def Let_def renderOnce_frame)

lemma render_closed:
  "\<not> sheetOpen s \<Longrightarrow> animatedHeight (render u s) = animatedHeight s"
  "\<not> sheetOpen s \<Longrightarrow> animatedContainerHeight (render u s) = animatedContainerHeight s"
  by (simp_all add: render_def Let_def renderOnce_frame renderOnce_closed)

lemma render_hideBackdrop:
  "hideBackdrop (props s) \<Longrightarrow> containerHeight (render u s) = containerHeight s"
  "hideBackdrop (props s) \<Longrightarrow>
     animatedContainerHeight (render u s) = animatedContainerHeight s"
  by (simp_all add: render_def Let_def renderOnce_frame renderOnce_hideBackdrop)

text \<open>
  After \<open>render\<close> a further render changes nothing: the two rounds of \<open>render\<close> reach
  the state React settles in.
\<close>

lemma renderOnce_fixed:
  assumes "containerHeight (renderOnce u s) = containerHeight s"
  shows "renderOnce u (renderOnce u s) = renderOnce u s"
proof -
  let ?t = "renderOnce u s"
  have "useMemo_convertedHeight u ?t = ?t"
    using assms by (simp add: useMemo_convertedHeight_def renderOnce_deps renderOnce_frame)
  moreover have "useLayoutEffect u ?t = ?t"
    using assms by (simp add: useLayoutEffect_def renderOnce_deps renderOnce_frame)
  ultimately show ?thesis by (simp add: renderOnce_def)
qed

lemma renderOnce_twice_containerHeight:
  "containerHeight (renderOnce u (renderOnce u s)) = containerHeight (renderOnce u s)"
  by (simp add: renderOnce_containerHeight [of u "renderOnce u s"] renderOnce_deps
      renderOnce_frame)
    (simp add: renderOnce_containerHeight renderOnce_frame split: container_height.splits)

lemma render_stable: "renderOnce u (render u s) = render u s"
  by (simp add: render_def Let_def renderOnce_fixed renderOnce_twice_containerHeight)

section \<open>What the events leave unchanged\<close>

lemma callMethods_append: "callMethods (ms @ ns) s = callMethods ns (callMethods ms s)"
  by (induction ms arbitrary: s) simp_all

lemma run_append: "run u (evs @ evs') s = run u evs' (run u evs s)"
  by (induction evs arbitrary: s) simp_all

lemma callMethod_frame:
  "props (callMethod m s) = props s"
  "containerHeight (callMethod m s) = containerHeight s"
  by (cases m; simp add: openBottomSheet_eq closeBottomSheet_eq)+

lemma callMethods_frame:
  "props (callMethods ms s) = props s \<and> containerHeight (callMethods ms s) = containerHeight s"
  by (induction ms arbitrary: s) (simp_all add: callMethod_frame)

lemma finishBackdrop_frame:
  "props (finishBackdrop s) = props s"
  "containerHeight (finishBackdrop s) = containerHeight s"
  by (auto simp: finishBackdrop_def endBackdrop_def runCallback_def
      split: option.splits callback.splits)

lemma handle_props:
  "props (handle ev s) = (case ev of NewProps p \<Rightarrow> p | _ \<Rightarrow> props s)"
proof (cases ev)
  case (AnimationEnd c)
  then show ?thesis by (cases c) (simp_all add: finishBackdrop_frame)
qed (simp_all add: callMethods_frame moveEvent_def releaseEvent_def onPanResponderMove_eq
    onPanResponderRelease_eq closeBottomSheet_eq extractNativeTag_def
    containerViewLayoutHandler_def Let_def)

lemma handle_containerHeight:
  assumes "\<not> is_HeightString (passedContainerHeight (props s))"
  shows "containerHeight (handle ev s) = containerHeight s"
proof (cases ev)
  case (AnimationEnd c)
  then show ?thesis by (cases c) (simp_all add: finishBackdrop_frame)
qed (use assms in \<open>simp_all add: callMethods_frame moveEvent_def releaseEvent_def
    onPanResponderMove_eq onPanResponderRelease_eq closeBottomSheet_eq extractNativeTag_def\<close>)

lemma step_hidden:
  assumes "hideBackdrop (props s)" and "\<not> is_HeightString (passedContainerHeight (props s))"
    and "keepsBackdropHidden ev"
  shows "hideBackdrop (props (step u ev s))
         \<and> \<not> is_HeightString (passedContainerHeight (props (step u ev s)))
         \<and> containerHeight (step u ev s) = containerHeight s"
proof -
  have p: "hideBackdrop (props (handle ev s))
      \<and> \<not> is_HeightString (passedContainerHeight (props (handle ev s)))"
    using assms by (cases ev) (simp_all add: handle_props del: handle.simps)
  then show ?thesis
    using assms(2) by (simp add: step_def render_frame render_hideBackdrop handle_containerHeight)
qed

lemma run_hidden:
  assumes "hideBackdrop (props s)" and "\<not> is_HeightString (passedContainerHeight (props s))"
    and "list_all keepsBackdropHidden evs"
  shows "containerHeight (run u evs s) = containerHeight s"
  using assms
proof (induction evs arbitrary: s)
  case Nil
  then show ?case by simp
next
  case (Cons ev evs)
  from Cons.prems have h: "hideBackdrop (props (step u ev s))
         \<and> \<not> is_HeightString (passedContainerHeight (props (step u ev s)))
         \<and> containerHeight (step u ev s) = containerHeight s"
    by (intro step_hidden) simp_all
  with Cons.prems Cons.IH [of "step u ev s"] show ?case by simp
qed

lemma mount_hidden:
  assumes "hideBackdrop p"
  shows "props (mount u p h) = p" and "containerHeight (mount u p h) = h"
  using assms by (simp_all add: mount_def render_frame render_hideBackdrop)

lemma finish_idem: "finish (finish a) = finish a"
  by (simp add: finish_def split: option.splits)

text \<open>
  While the sheet is closed, a passive event leaves it closed, leaves the callback of
  the backdrop animation in place, and at most ends an animation already in flight on
  the content height or the container height.
\<close>

lemma handle_passive:
  assumes "isPassive ev" and "\<not> sheetOpen s"
  shows "sheetOpen (handle ev s) = sheetOpen s"
    and "backdropOnEnd (handle ev s) = backdropOnEnd s"
    and "animatedHeight (handle ev s) = animatedHeight s
         \<or> animatedHeight (handle ev s) = finish (animatedHeight s)"
    and "animatedContainerHeight (handle ev s) = animatedContainerHeight s
         \<or> animatedContainerHeight (handle ev s) = finish (animatedContainerHeight s)"
proof -
  show "sheetOpen (handle ev s) = sheetOpen s"
    using assms
    by (cases ev rule: isPassive.cases)
      (simp_all add: extractNativeTag_def containerViewLayoutHandler_def)
  show "backdropOnEnd (handle ev s) = backdropOnEnd s"
    using assms
    by (cases ev rule: isPassive.cases)
      (simp_all add: extractNativeTag_def containerViewLayoutHandler_def)
  show "animatedHeight (handle ev s) = animatedHeight s
         \<or> animatedHeight (handle ev s) = finish (animatedHeight s)"
    using assms
    by (cases ev rule: isPassive.cases)
      (simp_all add: extractNativeTag_def containerViewLayoutHandler_def)
  show "animatedContainerHeight (handle ev s) = animatedContainerHeight s
         \<or> animatedContainerHeight (handle ev s) = finish (animatedContainerHeight s)"
    using assms
    by (cases ev rule: isPassive.cases)
      (simp_all add: extractNativeTag_def containerViewLayoutHandler_def)
qed

lemma step_passive:
  assumes "isPassive ev" and "\<not> sheetOpen s"
  shows "\<not> sheetOpen (step u ev s)"
    and "backdropOnEnd (step u ev s) = backdropOnEnd s"
    and "animatedHeight (step u ev s) = animatedHeight s
         \<or> animatedHeight (step u ev s) = finish (animatedHeight s)"
    and "animatedContainerHeight (step u ev s) = animatedContainerHeight s
         \<or> animatedContainerHeight (step u ev s) = finish (animatedContainerHeight s)"
  using handle_passive [OF assms]
  by (simp_all add: step_def render_frame render_closed assms(2))

lemma run_passive:
  assumes "list_all isPassive evs" and "\<not> sheetOpen s"
  shows "\<not> sheetOpen (run u evs s) \<and> backdropOnEnd (run u evs s) = backdropOnEnd s
    \<and> (animatedHeight (run u evs s) = animatedHeight s
         \<or> animatedHeight (run u evs s) = finish (animatedHeight s))
    \<and> (animatedContainerHeight (run u evs s) = animatedContainerHeight s
         \<or> animatedContainerHeight (run u evs s) = finish (animatedContainerHeight s))"
  using assms
proof (induction evs arbitrary: s)
  case Nil
  then show ?case by simp
next
  case (Cons ev evs)
  then have p: "isPassive ev" and ps: "list_all isPassive evs" by simp_all
  note st = step_passive [OF p Cons.prems(2), of u]
  from Cons.IH [OF ps st(1)] st(2,3,4) show ?case
    by (auto simp: finish_idem)
qed

section \<open>The sample sheet, evaluated\<close>

lemmas model_defs = run.simps step_def handle.simps callMethods.simps callMethod.simps
  render_def renderOnce_def useMemo_convertedHeight_def useLayoutEffect_def layoutEffect_def
  computeConvertedHeight_def openBottomSheet_def closeBottomSheet_def startBackdrop_def
  setBackdrop_def endBackdrop_def runCallback_def finishBackdrop_def extractNativeTag_def
  mount_def useAnimatedValue_def setValue_def start_def finish_def animateHeight_def
  animateContainerHeight_def animateBackdropMaskOpacity_def clamp_def Let_def

lemma sampleSheet_slide:
  "sampleSheet sampleProps tag =
    \<lparr>props = sampleProps, SCREEN_HEIGHT = 800, containerHeight = 800, sheetOpen = True,
       animatedContainerHeight = \<lparr>val = Fin 0, animation = Some (animateContainerHeight 800)\<rparr>,
       animatedBackdropMaskOpacity = \<lparr>val = Fin 0, animation = Some (animateBackdropMaskOpacity 1)\<rparr>,
       backdropOnEnd = None,
       animatedHeight = \<lparr>val = Fin 0, animation = Some (animateHeight SLIDE 400 None)\<rparr>,
       animatedTranslateY = \<lparr>val = Fin 0, animation = None\<rparr>,
       cachedContentWrapperNativeTag = tag,
       convertedHeight = 400,
       convertedHeightDeps = Some (800, Percent 50, True, SLIDE),
       layoutEffectDeps = Some (HeightUndefined, 800, True, 800, False)\<rparr>"
  by (simp add: sampleSheet_def sampleUtils_def sampleProps_def model_defs)

lemma sampleSheet_fade:
  "sampleSheet (sampleProps\<lparr>animationType := FADE\<rparr>) tag =
    \<lparr>props = sampleProps\<lparr>animationType := FADE\<rparr>,
       SCREEN_HEIGHT = 800, containerHeight = 800, sheetOpen = True,
       animatedContainerHeight = \<lparr>val = Fin 0, animation = Some (animateContainerHeight 800)\<rparr>,
       animatedBackdropMaskOpacity = \<lparr>val = Fin 0, animation = Some (animateBackdropMaskOpacity 1)\<rparr>,
       backdropOnEnd = None,
       animatedHeight = \<lparr>val = Fin 400, animation = None\<rparr>,
       animatedTranslateY = \<lparr>val = Fin 0, animation = None\<rparr>,
       cachedContentWrapperNativeTag = tag,
       convertedHeight = 400,
       convertedHeightDeps = Some (800, Percent 50, True, FADE),
       layoutEffectDeps = Some (HeightUndefined, 800, True, 800, False)\<rparr>"
  by (simp add: sampleSheet_def sampleUtils_def sampleProps_def model_defs)

lemma sampleSheet_slide_fields:
  "convertedHeight (sampleSheet sampleProps tag) = 400"
  "sheetOpen (sampleSheet sampleProps tag)"
  "props (sampleSheet sampleProps tag) = sampleProps"
  "cachedContentWrapperNativeTag (sampleSheet sampleProps tag) = tag"
  "animatedHeight (sampleSheet sampleProps tag)
     = \<lparr>val = Fin 0, animation = Some (animateHeight SLIDE 400 None)\<rparr>"
  "animatedBackdropMaskOpacity (sampleSheet sampleProps tag)
     = \<lparr>val = Fin 0, animation = Some (animateBackdropMaskOpacity 1)\<rparr>"
  by (simp_all add: sampleSheet_slide)

lemma sampleSheet_fade_fields:
  "convertedHeight (sampleSheet (sampleProps\<lparr>animationType := FADE\<rparr>) tag) = 400"
  "props (sampleSheet (sampleProps\<lparr>animationType := FADE\<rparr>) tag)
     = sampleProps\<lparr>animationType := FADE\<rparr>"
  "cachedContentWrapperNativeTag (sampleSheet (sampleProps\<lparr>animationType := FADE\<rparr>) tag)
     = tag"
  "animatedHeight (sampleSheet (sampleProps\<lparr>animationType := FADE\<rparr>) tag)
     = \<lparr>val = Fin 400, animation = None\<rparr>"
  by (simp_all add: sampleSheet_fade)

lemma sampleProps_fields:
  "animationType sampleProps = SLIDE"
  "closeOnDragDown sampleProps"
  "\<not> hideBackdrop sampleProps"
  "panHandlersAttached sampleProps v"
  by (simp_all add: sampleProps_def panHandlersAttached_def getPanHandlersFor_def)

lemma sampleProps_fade_fields:
  "animationType (sampleProps\<lparr>animationType := FADE\<rparr>) = FADE"
  "panHandlersAttached (sampleProps\<lparr>animationType := FADE\<rparr>) v"
  by (simp_all add: sampleProps_def panHandlersAttached_def getPanHandlersFor_def)


lemma mount_pixels_hidden:
  "convertedHeight (mount sampleUtils
       (sampleProps\<lparr>height := Pixels 300, hideBackdrop := True\<rparr>) 800) = 300"
  "hideBackdrop (props (mount sampleUtils
       (sampleProps\<lparr>height := Pixels 300, hideBackdrop := True\<rparr>) 800))"
  "containerHeight (mount sampleUtils
       (sampleProps\<lparr>height := Pixels 300, hideBackdrop := True\<rparr>) 800) = 800"
  by (simp_all add: mount_def render_frame render_hideBackdrop render_def renderOnce_def
    useMemo_convertedHeight_def useLayoutEffect_def layoutEffect_def computeConvertedHeight_def
    useAnimatedValue_def clamp_def Let_def sampleProps_def)

section \<open>The close sequence\<close>

text \<open>
  Claim C1: \<open>closeBottomSheet\<close>, and the render that follows it, leave the content
  height and the container height values as they were: it only starts the backdrop
  fade to 0 and attaches the callback. When that fade runs to its end, the callback
  starts the container height transition to 0 and collapses the content height (set
  to 0 at once under fade, animated to 0 otherwise). When the fade is stopped by a
  \<open>setValue\<close> or by a later \<open>start\<close> on the backdrop, the callback is called with
  \<open>finished\<close> false, does nothing and is dropped: both heights stay untouched, and
  after a \<open>setValue\<close> no animation is left that could complete. Between the close and
  the end of the fade, through any passive events, the two heights at most finish the
  animation they were in, and the callback stays attached.
\<close>

theorem close_two_phase:
  "animatedHeight (closeBottomSheet s) = animatedHeight s
   \<and> animatedContainerHeight (closeBottomSheet s) = animatedContainerHeight s
   \<and> animatedHeight (step u (Call [Close]) s) = animatedHeight s
   \<and> animatedContainerHeight (step u (Call [Close]) s) = animatedContainerHeight s
   \<and> animation (animatedBackdropMaskOpacity (closeBottomSheet s))
       = Some (animateBackdropMaskOpacity 0)
   \<and> backdropOnEnd (closeBottomSheet s) = Some (CloseCallback (animationType (props s)))
   \<and> animatedContainerHeight (finishBackdrop (closeBottomSheet s))
       = start (animateContainerHeight 0) (animatedContainerHeight s)
   \<and> animatedHeight (finishBackdrop (closeBottomSheet s))
       = (if animationType (props s) = FADE then setValue (Fin 0) (animatedHeight s)
          else start (animateHeight (animationType (props s)) 0 None) (animatedHeight s))
   \<and> backdropOnEnd (finishBackdrop (closeBottomSheet s)) = None
   \<and> animatedHeight (setBackdrop v (closeBottomSheet s)) = animatedHeight s
   \<and> animatedContainerHeight (setBackdrop v (closeBottomSheet s)) = animatedContainerHeight s
   \<and> finishBackdrop (setBackdrop v (closeBottomSheet s)) = setBackdrop v (closeBottomSheet s)
   \<and> animatedHeight (startBackdrop w cb (closeBottomSheet s)) = animatedHeight s
   \<and> animatedContainerHeight (startBackdrop w cb (closeBottomSheet s))
       = animatedContainerHeight s
   \<and> backdropOnEnd (startBackdrop w cb (closeBottomSheet s)) = cb
   \<and> runCallback (CloseCallback a) False s = s
   \<and> (list_all isPassive evs \<longrightarrow>
        (animatedHeight (run u evs (closeBottomSheet s)) = animatedHeight s
         \<or> animatedHeight (run u evs (closeBottomSheet s)) = finish (animatedHeight s))
        \<and> (animatedContainerHeight (run u evs (closeBottomSheet s))
              = animatedContainerHeight s
           \<or> animatedContainerHeight (run u evs (closeBottomSheet s))
              = finish (animatedContainerHeight s))
        \<and> backdropOnEnd (run u evs (closeBottomSheet s))
            = Some (CloseCallback (animationType (props s))))"
proof -
  have closed: "\<not> sheetOpen (closeBottomSheet s)"
    by (simp add: closeBottomSheet_eq)
  have "animatedHeight (step u (Call [Close]) s) = animatedHeight (closeBottomSheet s)"
    "animatedContainerHeight (step u (Call [Close]) s)
       = animatedContainerHeight (closeBottomSheet s)"
    using closed by (simp_all add: step_def render_closed)
  moreover have "animatedContainerHeight (finishBackdrop (closeBottomSheet s))
       = start (animateContainerHeight 0) (animatedContainerHeight s)"
    by (simp add: closeBottomSheet_eq finishBackdrop_def endBackdrop_def runCallback_def
        start_def finish_def)
  moreover have "animatedHeight (finishBackdrop (closeBottomSheet s))
       = (if animationType (props s) = FADE then setValue (Fin 0) (animatedHeight s)
          else start (animateHeight (animationType (props s)) 0 None) (animatedHeight s))"
    by (simp add: closeBottomSheet_eq finishBackdrop_def endBackdrop_def runCallback_def
        start_def finish_def)
  moreover have "backdropOnEnd (finishBackdrop (closeBottomSheet s)) = None"
    by (simp add: closeBottomSheet_eq finishBackdrop_def endBackdrop_def runCallback_def
        start_def finish_def)
  moreover have
    "finishBackdrop (setBackdrop v (closeBottomSheet s)) = setBackdrop v (closeBottomSheet s)"
    by (simp add: setBackdrop_eq finishBackdrop_def setValue_def)
  moreover have "(animatedHeight (run u evs (closeBottomSheet s)) = animatedHeight s
         \<or> animatedHeight (run u evs (closeBottomSheet s)) = finish (animatedHeight s))
        \<and> (animatedContainerHeight (run u evs (closeBottomSheet s))
              = animatedContainerHeight s
           \<or> animatedContainerHeight (run u evs (closeBottomSheet s))
              = finish (animatedContainerHeight s))
        \<and> backdropOnEnd (run u evs (closeBottomSheet s))
            = Some (CloseCallback (animationType (props s)))"
    if "list_all isPassive evs"
    using run_passive [OF that closed, of u] by (simp add: closeBottomSheet_eq)
  ultimately show ?thesis
    by (simp add: closeBottomSheet_eq setBackdrop_eq startBackdrop_eq start_def
        runCallback_def)
qed

theorem close_two_phase_witness:
  "animatedHeight (closeBottomSheet (sampleSheet sampleProps (Some 7)))
     = \<lparr>val = Fin 0, animation = Some (animateHeight SLIDE 400 None)\<rparr>
   \<and> animation (animatedHeight
        (finishBackdrop (closeBottomSheet (sampleSheet sampleProps (Some 7)))))
     = Some \<lparr>toValue = 0, duration = 500, easing = SlideEasingFn\<rparr>
   \<and> animation (animatedContainerHeight
        (finishBackdrop (closeBottomSheet (sampleSheet sampleProps (Some 7)))))
     = Some \<lparr>toValue = 0, duration = 50, easing = DefaultEasing\<rparr>
   \<and> animatedHeight (setBackdrop (Fin 1) (closeBottomSheet (sampleSheet sampleProps (Some 7))))
     = \<lparr>val = Fin 0, animation = Some (animateHeight SLIDE 400 None)\<rparr>
   \<and> backdropOnEnd (run sampleUtils [AnimationEnd Height, NewWindowHeight 600]
        (closeBottomSheet (sampleSheet sampleProps (Some 7))))
     = Some (CloseCallback SLIDE)"
  using close_two_phase [of "sampleSheet sampleProps (Some 7)" sampleUtils "Fin 1" 1 None SLIDE
      "[AnimationEnd Height, NewWindowHeight 600]"]
  by (auto simp: sampleSheet_slide_fields sampleProps_fields start_def animateHeight_def
      animateContainerHeight_def)

text \<open>
  Claim C2: whatever the state of the sheet and of its animations, \<open>sheetOpen\<close> is
  false when \<open>closeBottomSheet\<close> returns: for \<open>open()\<close> followed at once by
  \<open>close()\<close>, for every sequence of calls ending in \<open>close()\<close>, after the
  render that follows, and after any earlier events.
\<close>

theorem close_sets_closed:
  "sheetOpen (closeBottomSheet s) = False
   \<and> sheetOpen (closeBottomSheet (openBottomSheet s)) = False
   \<and> sheetOpen (callMethods (ms @ [Close]) s) = False
   \<and> sheetOpen (step u (Call (ms @ [Close])) s) = False
   \<and> sheetOpen (run u (evs @ [Call (ms @ [Close])]) s) = False"
  by (simp add: closeBottomSheet_eq callMethods_append run_append step_def render_frame)

theorem close_sets_closed_witness:
  "sheetOpen (sampleSheet sampleProps None)
   \<and> \<not> sheetOpen (callMethods [Open, Close] (sampleSheet sampleProps None))
   \<and> \<not> sheetOpen (run sampleUtils [Move handlebar None 50, Call [Open, Close]]
          (sampleSheet sampleProps None))"
  using close_sets_closed [of "sampleSheet sampleProps None" "[Open]" sampleUtils
      "[Move handlebar None 50]"]
  by (simp add: sampleSheet_slide_fields)

section \<open>Properties of the height resolver\<close>

text \<open>
  The specification asks two things of the resolver on the automatic height: a result
  in [0, containerHeight] for every container height that is not negative, and a
  strictly smaller result with the handle bar visible than with it hidden. On a
  container of height 0 no resolver does both, whatever its code.
\<close>

lemma auto_range_excludes_strictness:
  fixes resolve :: "height_spec \<Rightarrow> real \<Rightarrow> bool \<Rightarrow> real"
  shows "\<not> (in_container 0 (resolve Auto 0 False) \<and> in_container 0 (resolve Auto 0 True)
            \<and> resolve Auto 0 False < resolve Auto 0 True)"
  by (auto simp: in_container_def)

text \<open>
  Claim C9: for every container height and a positive allowance, the automatic height
  with the handle bar visible is strictly smaller than the automatic height with the
  handle bar hidden; the allowance is subtracted only when the handle bar is visible.
\<close>

theorem convertHeight_auto_handle_bar:
  assumes "0 < allowance"
  shows "convertHeight allowance Auto ch False
           < convertHeight allowance Auto ch True
         \<and> convertHeight allowance Auto ch True = ch
         \<and> convertHeight allowance Auto ch False
             = ch - allowance"
  using assms by simp

theorem convertHeight_auto_handle_bar_witness:
  "convertHeight 25 Auto 800 False = 775 \<and> convertHeight 25 Auto 800 True = 800
   \<and> convertHeight 25 Auto 800 False < convertHeight 25 Auto 800 True"
  using convertHeight_auto_handle_bar [of 25 800] by simp

section \<open>Gestures: release and move\<close>

text \<open>
  Claim C4: on the release of a gesture held by the sheet, when the downward delta is
  at least a third of \<open>convertedHeight\<close> (the threshold itself included) and
  \<open>closeOnDragDown\<close> is set, the release is \<open>closeBottomSheet\<close>. When the delta is
  below the threshold or \<open>closeOnDragDown\<close> is not set, \<open>sheetOpen\<close> is unchanged,
  the backdrop opacity is set to 1 at once, the container height is untouched, and
  the content height is animated back to \<open>convertedHeight\<close> unless the animation
  type is fade, under which it is untouched.
\<close>

theorem release_decision:
  "(convertedHeight s / 3 \<le> dy \<and> closeOnDragDown (props s) \<longrightarrow>
      onPanResponderRelease dy s = closeBottomSheet s
      \<and> \<not> sheetOpen (onPanResponderRelease dy s)
      \<and> backdropOnEnd (onPanResponderRelease dy s)
          = Some (CloseCallback (animationType (props s))))
   \<and> (closeOnDragDown (props s) \<longrightarrow>
      onPanResponderRelease (convertedHeight s / 3) s = closeBottomSheet s)
   \<and> (dy < convertedHeight s / 3 \<or> \<not> closeOnDragDown (props s) \<longrightarrow>
      sheetOpen (onPanResponderRelease dy s) = sheetOpen s
      \<and> backdropOnEnd (onPanResponderRelease dy s) = None
      \<and> animatedBackdropMaskOpacity (onPanResponderRelease dy s)
          = \<lparr>val = Fin 1, animation = None\<rparr>
      \<and> animatedContainerHeight (onPanResponderRelease dy s) = animatedContainerHeight s
      \<and> animatedHeight (onPanResponderRelease dy s)
          = (if animationType (props s) = FADE then animatedHeight s
             else start (animateHeight (animationType (props s)) (convertedHeight s) None)
                    (animatedHeight s)))
   \<and> (panHandlersAttached (props s) v \<longrightarrow>
      releaseEvent v dy s = onPanResponderRelease dy s)"
  by (auto simp: onPanResponderRelease_eq closeBottomSheet_eq releaseEvent_def setValue_def)

theorem release_decision_witness:
  "\<not> sheetOpen (onPanResponderRelease (400 / 3) (sampleSheet sampleProps (Some 7)))
   \<and> onPanResponderRelease (convertedHeight (sampleSheet sampleProps (Some 7)) / 3)
        (sampleSheet sampleProps (Some 7))
       = closeBottomSheet (sampleSheet sampleProps (Some 7))
   \<and> onPanResponderRelease 150 (sampleSheet sampleProps (Some 7))
       = closeBottomSheet (sampleSheet sampleProps (Some 7))
   \<and> sheetOpen (onPanResponderRelease (400 / 3 - 1) (sampleSheet sampleProps (Some 7)))
   \<and> animatedBackdropMaskOpacity
        (onPanResponderRelease (400 / 3 - 1) (sampleSheet sampleProps (Some 7)))
       = \<lparr>val = Fin 1, animation = None\<rparr>
   \<and> animation (animatedHeight
        (onPanResponderRelease (400 / 3 - 1) (sampleSheet sampleProps (Some 7))))
       = Some \<lparr>toValue = 400, duration = 500, easing = SlideEasingFn\<rparr>
   \<and> releaseEvent contentwrapper 150 (sampleSheet sampleProps (Some 7))
       = onPanResponderRelease 150 (sampleSheet sampleProps (Some 7))"
proof -
  have "\<not> sheetOpen (onPanResponderRelease (400 / 3) (sampleSheet sampleProps (Some 7)))
     \<and> onPanResponderRelease (convertedHeight (sampleSheet sampleProps (Some 7)) / 3)
        (sampleSheet sampleProps (Some 7))
       = closeBottomSheet (sampleSheet sampleProps (Some 7))"
    using release_decision [of "sampleSheet sampleProps (Some 7)" "400 / 3" contentwrapper]
    by (auto simp: sampleSheet_slide_fields sampleProps_fields)
  moreover have "onPanResponderRelease 150 (sampleSheet sampleProps (Some 7))
       = closeBottomSheet (sampleSheet sampleProps (Some 7))
     \<and> releaseEvent contentwrapper 150 (sampleSheet sampleProps (Some 7))
       = onPanResponderRelease 150 (sampleSheet sampleProps (Some 7))"
    using release_decision [of "sampleSheet sampleProps (Some 7)" 150 contentwrapper]
    by (auto simp: sampleSheet_slide_fields sampleProps_fields)
  moreover have "sheetOpen (onPanResponderRelease (400 / 3 - 1) (sampleSheet sampleProps (Some 7)))
   \<and> animatedBackdropMaskOpacity
        (onPanResponderRelease (400 / 3 - 1) (sampleSheet sampleProps (Some 7)))
       = \<lparr>val = Fin 1, animation = None\<rparr>
   \<and> animation (animatedHeight
        (onPanResponderRelease (400 / 3 - 1) (sampleSheet sampleProps (Some 7))))
       = Some \<lparr>toValue = 400, duration = 500, easing = SlideEasingFn\<rparr>"
    using release_decision [of "sampleSheet sampleProps (Some 7)" "400 / 3 - 1" contentwrapper]
    by (auto simp: sampleSheet_slide_fields sampleProps_fields start_def animateHeight_def)
  ultimately show ?thesis by simp
qed

text \<open>
  Claim C5: a move of a gesture held by the sheet with a positive downward delta
  \<open>dy\<close> sets the backdrop opacity at once to \<open>1 - dy / convertedHeight\<close>, with no
  clamping (the witness reaches -1/4), and, unless the animation type is fade, sets
  the content height at once to \<open>convertedHeight - dy\<close>. A move with \<open>dy \<le> 0\<close> leaves
  the whole state as it is.
\<close>

theorem move_feedback:
  "(0 < dy \<longrightarrow>
      animatedBackdropMaskOpacity (onPanResponderMove dy s)
        = \<lparr>val = js_sub (Fin 1) (js_div dy (convertedHeight s)), animation = None\<rparr>
      \<and> (convertedHeight s \<noteq> 0 \<longrightarrow>
           val (animatedBackdropMaskOpacity (onPanResponderMove dy s))
             = Fin (1 - dy / convertedHeight s))
      \<and> (animationType (props s) \<noteq> FADE \<longrightarrow>
           animatedHeight (onPanResponderMove dy s)
             = \<lparr>val = Fin (convertedHeight s - dy), animation = None\<rparr>))
   \<and> (dy \<le> 0 \<longrightarrow> onPanResponderMove dy s = s)
   \<and> (panHandlersAttached (props s) v \<and> onMoveShouldSetPanResponder v target s \<longrightarrow>
        moveEvent v target dy s = onPanResponderMove dy s)"
  by (simp add: onPanResponderMove_eq moveEvent_def setValue_def js_div_def)

theorem move_feedback_witness:
  "animatedBackdropMaskOpacity (moveEvent contentwrapper (Some 7) 150 (sampleSheet sampleProps (Some 7)))
     = \<lparr>val = Fin (5 / 8), animation = None\<rparr>
   \<and> animatedHeight (moveEvent contentwrapper (Some 7) 150 (sampleSheet sampleProps (Some 7)))
     = \<lparr>val = Fin 250, animation = None\<rparr>
   \<and> val (animatedBackdropMaskOpacity (onPanResponderMove 500 (sampleSheet sampleProps (Some 7))))
     = Fin (- 1 / 4)
   \<and> onPanResponderMove (- 10) (sampleSheet sampleProps (Some 7))
     = sampleSheet sampleProps (Some 7)"
proof -
  have "animatedBackdropMaskOpacity (moveEvent contentwrapper (Some 7) 150 (sampleSheet sampleProps (Some 7)))
     = \<lparr>val = Fin (5 / 8), animation = None\<rparr>
   \<and> animatedHeight (moveEvent contentwrapper (Some 7) 150 (sampleSheet sampleProps (Some 7)))
     = \<lparr>val = Fin 250, animation = None\<rparr>"
    using move_feedback [of 150 "sampleSheet sampleProps (Some 7)" contentwrapper "Some 7"]
    by (auto simp: sampleSheet_slide_fields sampleProps_fields onMoveShouldSetPanResponder_def
        js_div_def)
  moreover have "val (animatedBackdropMaskOpacity (onPanResponderMove 500 (sampleSheet sampleProps (Some 7))))
     = Fin (- 1 / 4)"
    using move_feedback [of 500 "sampleSheet sampleProps (Some 7)" contentwrapper "Some 7"]
    by (auto simp: sampleSheet_slide_fields sampleProps_fields)
  moreover have "onPanResponderMove (- 10) (sampleSheet sampleProps (Some 7))
     = sampleSheet sampleProps (Some 7)"
    using move_feedback [of "- 10" "sampleSheet sampleProps (Some 7)" contentwrapper "Some 7"]
    by simp
  ultimately show ?thesis by simp
qed

text \<open>
  Claim C6: under the fade animation type no move event changes the content height
  value; nor does it change the container height or the translation, so the backdrop
  opacity is the only value a move writes.
\<close>

theorem fade_move_keeps_height:
  assumes "animationType (props s) = FADE"
  shows "animatedHeight (onPanResponderMove dy s) = animatedHeight s
         \<and> animatedHeight (moveEvent v target dy s) = animatedHeight s
         \<and> animatedContainerHeight (moveEvent v target dy s) = animatedContainerHeight s
         \<and> animatedTranslateY (moveEvent v target dy s) = animatedTranslateY s"
  using assms by (simp add: moveEvent_def onPanResponderMove_eq)

theorem fade_move_keeps_height_witness:
  "animationType (props (sampleSheet (sampleProps\<lparr>animationType := FADE\<rparr>) (Some 7))) = FADE
   \<and> animatedHeight (moveEvent contentwrapper (Some 7) 150
        (sampleSheet (sampleProps\<lparr>animationType := FADE\<rparr>) (Some 7)))
      = \<lparr>val = Fin 400, animation = None\<rparr>
   \<and> animatedBackdropMaskOpacity (moveEvent contentwrapper (Some 7) 150
        (sampleSheet (sampleProps\<lparr>animationType := FADE\<rparr>) (Some 7)))
      = \<lparr>val = Fin (5 / 8), animation = None\<rparr>"
proof -
  have fade: "animationType (props (sampleSheet (sampleProps\<lparr>animationType := FADE\<rparr>) (Some 7)))
      = FADE"
    by (simp add: sampleSheet_fade_fields)
  have "animatedHeight (moveEvent contentwrapper (Some 7) 150
        (sampleSheet (sampleProps\<lparr>animationType := FADE\<rparr>) (Some 7)))
      = \<lparr>val = Fin 400, animation = None\<rparr>"
    using fade_move_keeps_height [OF fade, of 150 contentwrapper "Some 7"]
    by (simp add: sampleSheet_fade_fields(4))
  moreover have "animatedBackdropMaskOpacity (moveEvent contentwrapper (Some 7) 150
        (sampleSheet (sampleProps\<lparr>animationType := FADE\<rparr>) (Some 7)))
      = \<lparr>val = Fin (5 / 8), animation = None\<rparr>"
    by (simp add: moveEvent_def onPanResponderMove_eq sampleSheet_fade_fields
        sampleProps_fade_fields onMoveShouldSetPanResponder_def setValue_def js_div_def)
  ultimately show ?thesis using fade by simp
qed

section \<open>Gesture ownership\<close>




section \<open>Opening\<close>

text \<open>
  Claim C8: \<open>openBottomSheet\<close> starts the container height transition towards
  \<open>convertedHeight\<close> when \<open>hideBackdrop\<close> is set and towards the full
  \<open>containerHeight\<close> otherwise; with \<open>hideBackdrop\<close> set that transition is still
  the one in flight after the render that follows. With \<open>height = 300\<close> the target
  is 300.
\<close>

theorem open_container_target:
  "animation (animatedContainerHeight (openBottomSheet s))
     = Some (animateContainerHeight
               (if hideBackdrop (props s) then convertedHeight s else containerHeight s))
   \<and> toValue (animateContainerHeight x) = x
   \<and> (hideBackdrop (props s) \<longrightarrow>
        animation (animatedContainerHeight (step u (Call [Open]) s))
          = Some (animateContainerHeight (convertedHeight s)))"
  by (simp add: openBottomSheet_eq start_def animateContainerHeight_def step_def
      render_hideBackdrop)

theorem open_container_target_witness:
  "animation (animatedContainerHeight (openBottomSheet (mount sampleUtils
       (sampleProps\<lparr>height := Pixels 300, hideBackdrop := True\<rparr>) 800)))
     = Some \<lparr>toValue = 300, duration = 50, easing = DefaultEasing\<rparr>
   \<and> animation (animatedContainerHeight (step sampleUtils (Call [Open]) (mount sampleUtils
       (sampleProps\<lparr>height := Pixels 300, hideBackdrop := True\<rparr>) 800)))
     = Some \<lparr>toValue = 300, duration = 50, easing = DefaultEasing\<rparr>
   \<and> animation (animatedContainerHeight (openBottomSheet (sampleSheet sampleProps None)))
     = Some \<lparr>toValue = 800, duration = 50, easing = DefaultEasing\<rparr>"
  using open_container_target [of "mount sampleUtils
       (sampleProps\<lparr>height := Pixels 300, hideBackdrop := True\<rparr>) 800" 0 sampleUtils]
    open_container_target [of "sampleSheet sampleProps None" 0 sampleUtils]
  by (simp add: mount_pixels_hidden sampleSheet_slide sampleProps_fields
      animateContainerHeight_def)

section \<open>The layout effect under a hidden backdrop\<close>

text \<open>
  Claim C10: with \<open>hideBackdrop\<close> set the layout effect returns at once and the
  \<open>containerHeight\<close> state is not written. From a sheet mounted with \<open>hideBackdrop\<close>
  on a window of height \<open>h\<close>, through any events under which the backdrop stays
  hidden and the \<open>containerHeight\<close> prop is a number or omitted (new numeric props
  and new window heights among them), the \<open>containerHeight\<close> state stays \<open>h\<close>.
\<close>

theorem hideBackdrop_freezes_containerHeight:
  "(hideBackdrop (props s) \<longrightarrow>
      layoutEffect u s = s \<and> containerHeight (useLayoutEffect u s) = containerHeight s
      \<and> containerHeight (render u s) = containerHeight s)
   \<and> (hideBackdrop p \<and> \<not> is_HeightString (passedContainerHeight p)
       \<and> list_all keepsBackdropHidden evs \<longrightarrow>
      containerHeight (run u evs (mount u p h)) = h)"
proof -
  have "containerHeight (run u evs (mount u p h)) = h"
    if "hideBackdrop p" "\<not> is_HeightString (passedContainerHeight p)"
      "list_all keepsBackdropHidden evs"
    using that run_hidden [of "mount u p h" evs u] by (simp add: mount_hidden)
  then show ?thesis
    by (simp add: layoutEffect_def useLayoutEffect_hideBackdrop render_hideBackdrop)
qed

theorem hideBackdrop_freezes_containerHeight_witness:
  "layoutEffect sampleUtils (mount sampleUtils (sampleProps\<lparr>hideBackdrop := True\<rparr>) 800)
     = mount sampleUtils (sampleProps\<lparr>hideBackdrop := True\<rparr>) 800
   \<and> containerHeight
     (run sampleUtils
        [NewProps (sampleProps\<lparr>hideBackdrop := True, passedContainerHeight := HeightNumber 500\<rparr>),
         NewWindowHeight 600, Call [Open],
         NewProps (sampleProps\<lparr>hideBackdrop := True, passedContainerHeight := HeightNumber 300\<rparr>),
         NewWindowHeight 400]
        (mount sampleUtils (sampleProps\<lparr>hideBackdrop := True\<rparr>) 800)) = 800"
  using hideBackdrop_freezes_containerHeight [of
      "mount sampleUtils (sampleProps\<lparr>hideBackdrop := True\<rparr>) 800" sampleUtils
      "sampleProps\<lparr>hideBackdrop := True\<rparr>"
      "[NewProps (sampleProps\<lparr>hideBackdrop := True, passedContainerHeight := HeightNumber 500\<rparr>),
         NewWindowHeight 600, Call [Open],
         NewProps (sampleProps\<lparr>hideBackdrop := True, passedContainerHeight := HeightNumber 300\<rparr>),
         NewWindowHeight 400]" 800]
  by (simp add: mount_hidden) (simp add: sampleProps_def)

end
